theory Spec2Isabelle
  imports Main
begin

section \<open>JavaScript values used by the streaming client\<close>

text \<open>
  JSON documents as trees. \<open>JUndefined\<close> stands for a property whose value is the
  JavaScript \<open>undefined\<close> (an optional argument that was not given); it never
  reaches the wire, see \<open>JSON_stringify\<close>.
\<close>

datatype json =
    JUndefined
  | JNull
  | JBool bool
  | JNum int
  | JStr string
  | JArr "json list"
  | JObj "(string \<times> json) list"

text \<open>A thrown JavaScript error: its class name and its message.\<close>

datatype js_error = JsError (err_name: string) (err_message: string)

text \<open>\<open>`${error}`\<close>: the string conversion of an error object.\<close>

definition error_toString :: "js_error \<Rightarrow> string" where
  "error_toString e = err_name e @ '': '' @ err_message e"

text \<open>\<open>String.prototype.includes\<close>.\<close>

fun str_includes :: "string \<Rightarrow> string \<Rightarrow> bool" where
  "str_includes [] sub = (sub = [])"
| "str_includes (c # cs) sub = (take (length sub) (c # cs) = sub \<or> str_includes cs sub)"

text \<open>\<open>Array.prototype.join\<close> on an array of strings.\<close>

fun join :: "string \<Rightarrow> string list \<Rightarrow> string" where
  "join sep [] = []"
| "join sep [x] = x"
| "join sep (x # y # ys) = x @ sep @ join sep (y # ys)"

text \<open>\<open>a || b\<close> on strings that may be undefined: the empty string is falsy.\<close>

fun or_else :: "string option \<Rightarrow> string \<Rightarrow> string" where
  "or_else None d = d"
| "or_else (Some s) d = (if s = [] then d else s)"

text \<open>\<open>Number.prototype.toString\<close> on a non-negative integer (decimal digits).\<close>

definition digit_char :: "nat \<Rightarrow> char" where
  "digit_char d =
     (if d = 0 then CHR ''0'' else if d = 1 then CHR ''1'' else if d = 2 then CHR ''2''
      else if d = 3 then CHR ''3'' else if d = 4 then CHR ''4'' else if d = 5 then CHR ''5''
      else if d = 6 then CHR ''6'' else if d = 7 then CHR ''7'' else if d = 8 then CHR ''8''
      else CHR ''9'')"

fun toString :: "nat \<Rightarrow> string" where
  "toString n = (if n < 10 then [digit_char n] else toString (n div 10) @ [digit_char (n mod 10)])"

declare toString.simps [simp del]

text \<open>
  The document that \<open>JSON.stringify\<close> writes for a value, as a tree: properties whose
  value is \<open>undefined\<close> are omitted from objects, and an \<open>undefined\<close> array element is
  written as \<open>null\<close>. Key order is the object's own property order.
\<close>

fun JSON_stringify :: "json \<Rightarrow> json" where
  "JSON_stringify (JArr xs) =
     JArr (map (\<lambda>x. if x = JUndefined then JNull else JSON_stringify x) xs)"
| "JSON_stringify (JObj fs) =
     JObj (map (\<lambda>(k, v). (k, JSON_stringify v)) (filter (\<lambda>(k, v). v \<noteq> JUndefined) fs))"
| "JSON_stringify v = v"

text \<open>
  A JavaScript \<open>Map\<close> with string keys, in insertion order: \<open>set\<close> on a present key
  replaces the value in place, on an absent key appends; \<open>delete\<close> removes the key;
  \<open>forEach\<close> visits the entries in list order.
\<close>

fun Map_set :: "string \<Rightarrow> 'v \<Rightarrow> (string \<times> 'v) list \<Rightarrow> (string \<times> 'v) list" where
  "Map_set k v [] = [(k, v)]"
| "Map_set k v ((k', v') # m) = (if k' = k then (k, v) # m else (k', v') # Map_set k v m)"

definition Map_delete :: "string \<Rightarrow> (string \<times> 'v) list \<Rightarrow> (string \<times> 'v) list" where
  "Map_delete k m = filter (\<lambda>(k', v). k' \<noteq> k) m"

section \<open>The streaming client (class CapitalWebSocket)\<close>

datatype Resolution =
  MINUTE | MINUTE_5 | MINUTE_15 | MINUTE_30 | HOUR | HOUR_4 | DAY | WEEK

fun Resolution_str :: "Resolution \<Rightarrow> string" where
  "Resolution_str MINUTE = ''MINUTE''"
| "Resolution_str MINUTE_5 = ''MINUTE_5''"
| "Resolution_str MINUTE_15 = ''MINUTE_15''"
| "Resolution_str MINUTE_30 = ''MINUTE_30''"
| "Resolution_str HOUR = ''HOUR''"
| "Resolution_str HOUR_4 = ''HOUR_4''"
| "Resolution_str DAY = ''DAY''"
| "Resolution_str WEEK = ''WEEK''"

text \<open>The candle type \<open>'classic' | 'heikin-ashi'\<close>.\<close>

datatype CandleType = Classic | HeikinAshi

fun CandleType_str :: "CandleType \<Rightarrow> string" where
  "CandleType_str Classic = ''classic''"
| "CandleType_str HeikinAshi = ''heikin-ashi''"

text \<open>\<open>readyState\<close> of a socket of the \<open>ws\<close> library: 0, 1, 2, 3.\<close>

datatype readyState = CONNECTING | OPEN | CLOSING | CLOSED

record WebSocketMessage =
  destination :: string
  correlationId :: string
  msg_cst :: string
  msg_securityToken :: string
  payload :: json

record CapitalWebSocketConfig =
  cfg_cst :: string
  cfg_securityToken :: string
  cfg_streamingUrl :: "string option"

text \<open>The events the client emits (\<open>this.emit(name, argument)\<close>).\<close>

datatype event =
    EvConnect
  | EvDisconnect
  | EvError js_error
  | EvQuote json
  | EvOhlc json
  | EvPong json
  | EvSubscription json
  | EvMessage json

text \<open>
  The instance. The first ten fields are the fields of the class; \<open>ws\<close> is the
  current socket, seen through its \<open>readyState\<close> (\<open>None\<close> is \<open>undefined\<close>).
  \<open>errorListeners\<close> is the state the class inherits from \<open>EventEmitter\<close> that matters
  here: the number of listeners registered for \<open>'error'\<close>. The last four fields
  record what the instance did to its environment: the calls of \<open>this.emit\<close> so far,
  the frames handed to \<open>ws.send\<close>, the delays of the reconnect timers that are armed
  and have not fired, and the number of sockets constructed.
\<close>

record CapitalWebSocket =
  ws :: "readyState option"
  cst :: string
  securityToken :: string
  streamingUrl :: string
  correlationIdCounter :: nat
  reconnectInterval :: nat
  maxReconnectAttempts :: nat
  reconnectAttempts :: nat
  isConnected :: bool
  subscriptions :: "(string \<times> WebSocketMessage) list"
  errorListeners :: nat
  emitted :: "event list"
  sent :: "json list"
  timers :: "nat list"
  sockets :: nat

type_synonym 'a result = "js_error + 'a"

definition new_CapitalWebSocket :: "CapitalWebSocketConfig \<Rightarrow> CapitalWebSocket" where
  "new_CapitalWebSocket config =
     \<lparr> ws = None,
       cst = cfg_cst config,
       securityToken = cfg_securityToken config,
       streamingUrl = or_else (cfg_streamingUrl config)
                        ''wss://api-streaming-capital.backend-capital.com/connect'',
       correlationIdCounter = 0,
       reconnectInterval = 5000,
       maxReconnectAttempts = 5,
       reconnectAttempts = 0,
       isConnected = False,
       subscriptions = [],
       errorListeners = 0,
       emitted = [],
       sent = [],
       timers = [],
       sockets = 0 \<rparr>"

text \<open>
  \<open>this.emit(name, argument)\<close> of \<open>EventEmitter\<close>: it calls the listeners registered
  for the name and returns, except that for the name \<open>'error'\<close> with no listener
  registered it throws its argument. The call is recorded in either case. The
  listeners themselves belong to the environment and are taken to return.
\<close>

definition emit :: "event \<Rightarrow> CapitalWebSocket \<Rightarrow> unit result \<times> CapitalWebSocket" where
  "emit ev s =
     (let s' = s\<lparr>emitted := emitted s @ [ev]\<rparr> in
      case ev of
        EvError e \<Rightarrow> (if errorListeners s = 0 then (Inl e, s') else (Inr (), s'))
      | _ \<Rightarrow> (Inr (), s'))"

text \<open>\<open>this.on('error', listener)\<close>: registers one more listener for \<open>'error'\<close>.\<close>

definition on_error :: "CapitalWebSocket \<Rightarrow> CapitalWebSocket" where
  "on_error s = s\<lparr>errorListeners := Suc (errorListeners s)\<rparr>"

definition getNextCorrelationId :: "CapitalWebSocket \<Rightarrow> string \<times> CapitalWebSocket" where
  "getNextCorrelationId s =
     (let s' = s\<lparr>correlationIdCounter := Suc (correlationIdCounter s)\<rparr>
      in (toString (correlationIdCounter s'), s'))"

definition createMessage ::
  "string \<Rightarrow> json \<Rightarrow> CapitalWebSocket \<Rightarrow> WebSocketMessage \<times> CapitalWebSocket" where
  "createMessage dest pl s =
     (case getNextCorrelationId s of (cid, s') \<Rightarrow>
        (\<lparr> destination = dest,
            correlationId = cid,
            msg_cst = cst s',
            msg_securityToken = securityToken s',
            payload = pl \<rparr>, s'))"

text \<open>The message object as a JavaScript object, in its property order.\<close>

definition message_object :: "WebSocketMessage \<Rightarrow> json" where
  "message_object m =
     JObj [(''destination'', JStr (destination m)),
           (''correlationId'', JStr (correlationId m)),
           (''cst'', JStr (msg_cst m)),
           (''securityToken'', JStr (msg_securityToken m)),
           (''payload'', payload m)]"

definition send :: "WebSocketMessage \<Rightarrow> CapitalWebSocket \<Rightarrow> unit result \<times> CapitalWebSocket" where
  "send message s =
     (if ws s = Some OPEN
      then (Inr (), s\<lparr>sent := sent s @ [JSON_stringify (message_object message)]\<rparr>)
      else (Inl (JsError ''Error'' ''WebSocket is not connected''), s))"

text \<open>
  The outcome of \<open>JSON.parse(data.toString())\<close> on an inbound frame: the SyntaxError it
  throws, or the value it returns.
\<close>

datatype parse_outcome = NotJSON js_error | Parsed json

text \<open>Property read \<open>o.name\<close> on an object; an absent property reads as \<open>undefined\<close>.\<close>

definition get_prop :: "(string \<times> json) list \<Rightarrow> string \<Rightarrow> json" where
  "get_prop fs name = (case map_of fs name of None \<Rightarrow> JUndefined | Some v \<Rightarrow> v)"

text \<open>
  The body of the \<open>try\<close> block of \<open>onMessage\<close>: the switch on \<open>message.destination\<close>.
  Reading a property of \<open>null\<close> throws a TypeError; on any other non-object value the
  property is \<open>undefined\<close> and the default branch is taken.
\<close>

definition cannot_read :: "string \<Rightarrow> string \<Rightarrow> js_error" where
  "cannot_read what name =
     JsError ''TypeError''
       (''Cannot read properties of '' @ what @ '' (reading '' @ [CHR 0x27] @ name @ [CHR 0x27] @ '')'')"

fun dispatch :: "json \<Rightarrow> CapitalWebSocket \<Rightarrow> unit result \<times> CapitalWebSocket" where
  "dispatch JNull s =
     (Inl (cannot_read ''null'' ''destination''), s)"
| "dispatch JUndefined s =
     (Inl (cannot_read ''undefined'' ''destination''), s)"
| "dispatch (JObj fs) s =
     (let d = get_prop fs ''destination'' in
      if d = JStr ''quote'' then emit (EvQuote (get_prop fs ''payload'')) s
      else if d = JStr ''ohlc.event'' then emit (EvOhlc (get_prop fs ''payload'')) s
      else if d = JStr ''ping'' then emit (EvPong (JObj fs)) s
      else if d = JStr ''marketData.subscribe'' \<or> d = JStr ''marketData.unsubscribe''
            \<or> d = JStr ''OHLCMarketData.subscribe'' \<or> d = JStr ''OHLCMarketData.unsubscribe''
      then emit (EvSubscription (JObj fs)) s
      else emit (EvMessage (JObj fs)) s)"
| "dispatch v s = emit (EvMessage v) s"

text \<open>
  \<open>onMessage\<close>: what the \<open>try\<close> block throws is caught, and the \<open>catch\<close> block emits an
  \<open>'error'\<close>; nothing catches what that \<open>emit\<close> throws.
\<close>

definition onMessage :: "parse_outcome \<Rightarrow> CapitalWebSocket \<Rightarrow> unit result \<times> CapitalWebSocket" where
  "onMessage data s =
     (case (case data of NotJSON e \<Rightarrow> (Inl e, s) | Parsed message \<Rightarrow> dispatch message s) of
        (Inr u, s') \<Rightarrow> (Inr u, s')
      | (Inl error, s') \<Rightarrow>
          emit (EvError (JsError ''Error''
                  (''Failed to parse WebSocket message: '' @ error_toString error))) s')"

definition onError :: "js_error \<Rightarrow> CapitalWebSocket \<Rightarrow> unit result \<times> CapitalWebSocket" where
  "onError error s = emit (EvError error) s"

text \<open>
  \<open>setTimeout(() => this.connect(), this.reconnectInterval)\<close> arms a timer; the call of
  \<open>connect\<close> happens when the environment fires it (\<open>reconnect_timer\<close> below).
\<close>

definition onClose :: "CapitalWebSocket \<Rightarrow> unit result \<times> CapitalWebSocket" where
  "onClose s =
     (case emit EvDisconnect (s\<lparr>isConnected := False\<rparr>) of
        (Inl e, s1) \<Rightarrow> (Inl e, s1)
      | (Inr u, s1) \<Rightarrow>
          if reconnectAttempts s1 < maxReconnectAttempts s1
          then (let s2 = s1\<lparr>reconnectAttempts := Suc (reconnectAttempts s1)\<rparr>
                in (Inr (), s2\<lparr>timers := timers s2 @ [reconnectInterval s2]\<rparr>))
          else emit (EvError (JsError ''Error'' ''Max reconnection attempts reached'')) s1)"

text \<open>
  \<open>this.subscriptions.forEach((subscription, key) => this.send(subscription))\<close>: the
  first \<open>send\<close> that throws ends the iteration and the exception leaves \<open>forEach\<close>.
\<close>

fun forEach_send ::
  "(string \<times> WebSocketMessage) list \<Rightarrow> CapitalWebSocket \<Rightarrow> unit result \<times> CapitalWebSocket" where
  "forEach_send [] s = (Inr (), s)"
| "forEach_send ((key, subscription) # rest) s =
     (case send subscription s of
        (Inl e, s') \<Rightarrow> (Inl e, s')
      | (Inr u, s') \<Rightarrow> forEach_send rest s')"

definition onOpen :: "CapitalWebSocket \<Rightarrow> unit result \<times> CapitalWebSocket" where
  "onOpen s =
     (case emit EvConnect (s\<lparr>isConnected := True, reconnectAttempts := 0\<rparr>) of
        (Inl e, s1) \<Rightarrow> (Inl e, s1)
      | (Inr u, s1) \<Rightarrow> forEach_send (subscriptions s1) s1)"

text \<open>
  \<open>connect\<close>: constructs a new socket, which starts in state CONNECTING, and registers
  the handlers on it. The handlers run when the environment delivers the socket's
  events (\<open>socket_open\<close>, \<open>socket_close\<close> below). The polling interval and the backup
  timeout of \<open>connect\<close> call \<open>onOpen\<close> again only when they read \<open>readyState\<close> 1; each
  such call is one more \<open>onOpen\<close> on an open socket.
\<close>

definition connect :: "CapitalWebSocket \<Rightarrow> CapitalWebSocket" where
  "connect s = s\<lparr>ws := Some CONNECTING, sockets := Suc (sockets s)\<rparr>"

definition disconnect :: "CapitalWebSocket \<Rightarrow> CapitalWebSocket" where
  "disconnect s = (s\<lparr>ws := None\<rparr>)\<lparr>isConnected := False, subscriptions := []\<rparr>"

definition isConnectedToServer :: "CapitalWebSocket \<Rightarrow> bool" where
  "isConnectedToServer s = (isConnected s \<and> ws s = Some OPEN)"

subsection \<open>Subscription methods\<close>

definition epics_json :: "string list \<Rightarrow> json" where
  "epics_json epics = JArr (map JStr epics)"

text \<open>An optional argument as a property value: \<open>undefined\<close> when it was not given.\<close>

fun optional :: "('a \<Rightarrow> json) \<Rightarrow> 'a option \<Rightarrow> json" where
  "optional f None = JUndefined"
| "optional f (Some x) = f x"

definition marketData_key :: "string list \<Rightarrow> string" where
  "marketData_key epics = ''marketData_'' @ join '','' epics"

definition subscribeToMarketData ::
  "string list \<Rightarrow> CapitalWebSocket \<Rightarrow> unit result \<times> CapitalWebSocket" where
  "subscribeToMarketData epics s =
     (case createMessage ''marketData.subscribe'' (JObj [(''epics'', epics_json epics)]) s of
        (message, s1) \<Rightarrow>
          send message
            (s1\<lparr>subscriptions := Map_set (marketData_key epics) message (subscriptions s1)\<rparr>))"

definition unsubscribeFromMarketData ::
  "string list \<Rightarrow> CapitalWebSocket \<Rightarrow> unit result \<times> CapitalWebSocket" where
  "unsubscribeFromMarketData epics s =
     (case createMessage ''marketData.unsubscribe'' (JObj [(''epics'', epics_json epics)]) s of
        (message, s1) \<Rightarrow>
          send message
            (s1\<lparr>subscriptions := Map_delete (marketData_key epics) (subscriptions s1)\<rparr>))"

text \<open>
  The key of \<open>subscribeToOHLCData\<close>:
  \<open>`ohlc_${epics.join(',')}_${resolutions?.join(',') || 'default'}_${type || 'classic'}`\<close>.
\<close>

definition ohlc_subscribe_key ::
  "string list \<Rightarrow> Resolution list option \<Rightarrow> CandleType option \<Rightarrow> string" where
  "ohlc_subscribe_key epics resolutions type =
     ''ohlc_'' @ join '','' epics @ ''_''
       @ or_else (map_option (\<lambda>rs. join '','' (map Resolution_str rs)) resolutions) ''default''
       @ ''_'' @ or_else (map_option CandleType_str type) ''classic''"

text \<open>
  The key of \<open>unsubscribeFromOHLCData\<close>, whose third argument is an array of types:
  \<open>`ohlc_${epics.join(',')}_${resolutions?.join(',') || 'default'}_${types?.join(',') || 'classic'}`\<close>.
\<close>

definition ohlc_unsubscribe_key ::
  "string list \<Rightarrow> Resolution list option \<Rightarrow> CandleType list option \<Rightarrow> string" where
  "ohlc_unsubscribe_key epics resolutions types =
     ''ohlc_'' @ join '','' epics @ ''_''
       @ or_else (map_option (\<lambda>rs. join '','' (map Resolution_str rs)) resolutions) ''default''
       @ ''_'' @ or_else (map_option (\<lambda>ts. join '','' (map CandleType_str ts)) types) ''classic''"

definition resolutions_json :: "Resolution list \<Rightarrow> json" where
  "resolutions_json rs = JArr (map (\<lambda>r. JStr (Resolution_str r)) rs)"

definition subscribeToOHLCData ::
  "string list \<Rightarrow> Resolution list option \<Rightarrow> CandleType option \<Rightarrow> CapitalWebSocket
     \<Rightarrow> unit result \<times> CapitalWebSocket" where
  "subscribeToOHLCData epics resolutions type s =
     (case createMessage ''OHLCMarketData.subscribe''
             (JObj [(''epics'', epics_json epics),
                    (''resolutions'', optional resolutions_json resolutions),
                    (''type'', optional (\<lambda>t. JStr (CandleType_str t)) type)]) s of
        (message, s1) \<Rightarrow>
          send message
            (s1\<lparr>subscriptions :=
                  Map_set (ohlc_subscribe_key epics resolutions type) message (subscriptions s1)\<rparr>))"

definition unsubscribeFromOHLCData ::
  "string list \<Rightarrow> Resolution list option \<Rightarrow> CandleType list option \<Rightarrow> CapitalWebSocket
     \<Rightarrow> unit result \<times> CapitalWebSocket" where
  "unsubscribeFromOHLCData epics resolutions types s =
     (case createMessage ''OHLCMarketData.unsubscribe''
             (JObj [(''epics'', epics_json epics),
                    (''resolutions'', optional resolutions_json resolutions),
                    (''types'', optional (\<lambda>ts. JArr (map (\<lambda>t. JStr (CandleType_str t)) ts)) types)]) s of
        (message, s1) \<Rightarrow>
          send message
            (s1\<lparr>subscriptions :=
                  Map_delete (ohlc_unsubscribe_key epics resolutions types) (subscriptions s1)\<rparr>))"

definition ping :: "CapitalWebSocket \<Rightarrow> unit result \<times> CapitalWebSocket" where
  "ping s = (case createMessage ''ping'' JUndefined s of (message, s1) \<Rightarrow> send message s1)"

definition updateTokens :: "string \<Rightarrow> string \<Rightarrow> CapitalWebSocket \<Rightarrow> CapitalWebSocket" where
  "updateTokens c t s = s\<lparr>cst := c, securityToken := t\<rparr>"

subsection \<open>The environment: socket events and timers\<close>

text \<open>
  The socket library sets \<open>readyState\<close> and then runs the handler that \<open>connect\<close>
  registered: \<open>'open'\<close> runs \<open>onOpen\<close>, \<open>'close'\<close> runs \<open>onClose\<close>. A reconnect timer that
  fires runs \<open>connect\<close>. \<open>socket_close\<close> is the state in which the \<open>'close'\<close> handler
  leaves the instance, whether it returned or threw.
\<close>

definition socket_open :: "CapitalWebSocket \<Rightarrow> unit result \<times> CapitalWebSocket" where
  "socket_open s = onOpen (s\<lparr>ws := Some OPEN\<rparr>)"

definition socket_close :: "CapitalWebSocket \<Rightarrow> CapitalWebSocket" where
  "socket_close s = snd (onClose (s\<lparr>ws := Some CLOSED\<rparr>))"

fun reconnect_timer :: "CapitalWebSocket \<Rightarrow> CapitalWebSocket" where
  "reconnect_timer s =
     (case timers s of [] \<Rightarrow> s | t # ts \<Rightarrow> connect (s\<lparr>timers := ts\<rparr>))"

text \<open>
  One failed connection: the socket closes, and the reconnect timer, if one was armed,
  fires. \<open>failures n\<close> is \<open>n\<close> such failures in a row, with no open in between.
\<close>

definition failure :: "CapitalWebSocket \<Rightarrow> CapitalWebSocket" where
  "failure s = reconnect_timer (socket_close s)"

fun failures :: "nat \<Rightarrow> CapitalWebSocket \<Rightarrow> CapitalWebSocket" where
  "failures 0 s = s"
| "failures (Suc n) s = failure (failures n s)"

text \<open>The terminal event: an \<open>'error'\<close> whose message contains the given text.\<close>

fun is_max_attempts_error :: "event \<Rightarrow> bool" where
  "is_max_attempts_error (EvError e) = str_includes (err_message e) ''Max reconnection attempts''"
| "is_max_attempts_error ev = False"

section \<open>The REST client (class CapitalAPI)\<close>

text \<open>
  What one HTTP round trip gives back to axios: a response with a 2xx status (its
  headers, and whether it carries data), a response with another status (and the
  message of its body, if any), or no response at all (network failure, timeout).
\<close>

datatype http_outcome =
    Fulfilled "(string \<times> string) list" bool
  | Rejected nat "string option"
  | NoResponse

record CapitalAPI =
  baseUrl :: string
  apiKey :: "string option"
  api_cst :: "string option"
  api_securityToken :: "string option"

text \<open>JavaScript truthiness of an optional string: defined and not empty.\<close>

fun truthy :: "string option \<Rightarrow> bool" where
  "truthy None = False"
| "truthy (Some s) = (s \<noteq> [])"

definition clearSession :: "CapitalAPI \<Rightarrow> CapitalAPI" where
  "clearSession api = api\<lparr>api_cst := None, api_securityToken := None\<rparr>"

definition setSessionTokens :: "string \<Rightarrow> string \<Rightarrow> CapitalAPI \<Rightarrow> CapitalAPI" where
  "setSessionTokens c t api = api\<lparr>api_cst := Some c, api_securityToken := Some t\<rparr>"

definition isAuthenticated :: "CapitalAPI \<Rightarrow> bool" where
  "isAuthenticated api = (truthy (api_cst api) \<and> truthy (api_securityToken api))"

definition getSessionTokens :: "CapitalAPI \<Rightarrow> string option \<times> string option" where
  "getSessionTokens api = (api_cst api, api_securityToken api)"

text \<open>The error axios rejects with.\<close>

fun axios_error :: "http_outcome \<Rightarrow> js_error" where
  "axios_error (Rejected status body) =
     JsError ''AxiosError'' (''Request failed with status code '' @ toString status)"
| "axios_error outcome = JsError ''AxiosError'' ''Network Error''"

text \<open>
  The response interceptor installed on \<open>this.client\<close> by the constructor: a response
  passes through; on an error whose response has status 401 the session is cleared,
  and the error is rejected again.
\<close>

fun response_interceptor :: "http_outcome \<Rightarrow> CapitalAPI \<Rightarrow> bool result \<times> CapitalAPI" where
  "response_interceptor (Fulfilled hs has_data) api = (Inr has_data, api)"
| "response_interceptor (Rejected status body) api =
     (Inl (axios_error (Rejected status body)),
      if status = 401 then clearSession api else api)"
| "response_interceptor NoResponse api = (Inl (axios_error NoResponse), api)"

text \<open>
  The private wrappers \<open>get\<close>, \<open>post\<close>, \<open>put\<close>, \<open>delete\<close> around \<open>this.client\<close>. The
  result says only that data came back. \<open>get\<close> throws when the response has no data,
  and replaces a 401 error by its own.
\<close>

datatype verb = GET | POST | PUT | DELETE

fun is_401 :: "http_outcome \<Rightarrow> bool" where
  "is_401 (Rejected status body) = (status = 401)"
| "is_401 outcome = False"

fun client_request :: "verb \<Rightarrow> http_outcome \<Rightarrow> CapitalAPI \<Rightarrow> unit result \<times> CapitalAPI" where
  "client_request GET outcome api =
     (case response_interceptor outcome api of
        (Inr has_data, api') \<Rightarrow>
          (if has_data then (Inr (), api')
           else (Inl (JsError ''Error'' ''No response data received''), api'))
      | (Inl e, api') \<Rightarrow>
          (if is_401 outcome
           then (Inl (JsError ''Error''
                   ''Authentication failed - check your credentials and API key''), api')
           else (Inl e, api')))"
| "client_request v outcome api =
     (case response_interceptor outcome api of
        (Inr has_data, api') \<Rightarrow> (Inr (), api')
      | (Inl e, api') \<Rightarrow> (Inl e, api'))"

text \<open>The REST methods of the class, one constructor each.\<close>

datatype api_call =
    GetServerTime | PingServer | GetEncryptionKey | CreateSession | GetSessionDetails
  | SwitchAccount | Logout | GetAllAccounts | GetAccountPreferences
  | UpdateAccountPreferences | GetActivityHistory | GetTransactionHistory
  | TopUpDemoAccount | GetDealConfirmation | GetAllPositions | CreatePosition
  | GetPosition | UpdatePosition | ClosePosition | GetAllWorkingOrders
  | CreateWorkingOrder | UpdateWorkingOrder | DeleteWorkingOrder | GetMarketNavigation
  | GetMarketNavigationNode | GetMarkets | GetMarketDetails | GetHistoricalPrices
  | GetClientSentiment | GetClientSentimentForMarket | GetAllWatchlists | CreateWatchlist
  | GetWatchlist | AddMarketToWatchlist | DeleteWatchlist | RemoveMarketFromWatchlist
  | CreateSessionWithEncryption

text \<open>
  The wrapper that each method calls. \<open>createSession\<close> calls none, and
  \<open>createSessionWithEncryption\<close> calls the two methods it is made of; \<open>call\<close> below does
  not consult \<open>wrapper\<close> for these two.
\<close>

fun wrapper :: "api_call \<Rightarrow> verb" where
  "wrapper SwitchAccount = PUT"
| "wrapper UpdateAccountPreferences = PUT"
| "wrapper UpdatePosition = PUT"
| "wrapper UpdateWorkingOrder = PUT"
| "wrapper AddMarketToWatchlist = PUT"
| "wrapper TopUpDemoAccount = POST"
| "wrapper CreatePosition = POST"
| "wrapper CreateWorkingOrder = POST"
| "wrapper CreateWatchlist = POST"
| "wrapper Logout = DELETE"
| "wrapper ClosePosition = DELETE"
| "wrapper DeleteWorkingOrder = DELETE"
| "wrapper DeleteWatchlist = DELETE"
| "wrapper RemoveMarketFromWatchlist = DELETE"
| "wrapper c = GET"

text \<open>\<open>headers['cst'] || headers['CST']\<close> on the response headers.\<close>

definition header_or :: "(string \<times> string) list \<Rightarrow> string \<Rightarrow> string \<Rightarrow> string option" where
  "header_or hs a b = (if truthy (map_of hs a) then map_of hs a else map_of hs b)"

text \<open>
  \<open>createSession\<close> posts through a temporary axios instance, created in the method,
  on which no interceptor is installed.
\<close>

fun createSession :: "http_outcome \<Rightarrow> CapitalAPI \<Rightarrow> unit result \<times> CapitalAPI" where
  "createSession outcome api =
     (if \<not> truthy (apiKey api)
      then (Inl (JsError ''Error'' ''API key is required to create session''), api)
      else case outcome of
        Fulfilled hs has_data \<Rightarrow>
          (let c = header_or hs ''cst'' ''CST'';
               t = header_or hs ''x-security-token'' ''X-SECURITY-TOKEN'';
               api' = (if truthy c \<and> truthy t then setSessionTokens (the c) (the t) api else api)
           in if has_data then (Inr (), api')
              else (Inl (JsError ''Error'' ''Invalid response received''), api'))
      | Rejected status body \<Rightarrow>
          (Inl (JsError ''Error''
             (''API Error ('' @ (if status = 0 then ''unknown'' else toString status) @ ''): ''
                @ or_else body ''Unknown error'')), api)
      | NoResponse \<Rightarrow> (Inl (axios_error NoResponse), api))"

definition getEncryptionKey :: "http_outcome \<Rightarrow> CapitalAPI \<Rightarrow> unit result \<times> CapitalAPI" where
  "getEncryptionKey outcome api =
     (if \<not> truthy (apiKey api)
      then (Inl (JsError ''Error'' ''API key is required to get encryption key''), api)
      else client_request GET outcome api)"

text \<open>
  \<open>createSessionWithEncryption\<close>: \<open>getEncryptionKey\<close>, then \<open>createSession\<close> with the
  encoded password; two round trips, the second through the temporary instance of
  \<open>createSession\<close>.
\<close>

definition createSessionWithEncryption ::
  "http_outcome \<Rightarrow> http_outcome \<Rightarrow> CapitalAPI \<Rightarrow> unit result \<times> CapitalAPI" where
  "createSessionWithEncryption outcome1 outcome2 api =
     (case getEncryptionKey outcome1 api of
        (Inl e, api') \<Rightarrow> (Inl e, api')
      | (Inr u, api') \<Rightarrow> createSession outcome2 api')"

text \<open>
  A call of a REST method, given what its round trips give back: \<open>outcome\<close> for its
  first request, \<open>outcome2\<close> for the second request, which only
  \<open>createSessionWithEncryption\<close> makes.
\<close>

fun call ::
  "api_call \<Rightarrow> http_outcome \<Rightarrow> http_outcome \<Rightarrow> CapitalAPI \<Rightarrow> unit result \<times> CapitalAPI" where
  "call CreateSession outcome outcome2 api = createSession outcome api"
| "call CreateSessionWithEncryption outcome outcome2 api =
     createSessionWithEncryption outcome outcome2 api"
| "call GetEncryptionKey outcome outcome2 api = getEncryptionKey outcome api"
| "call Logout outcome outcome2 api =
     (case client_request DELETE outcome api of
        (Inr u, api') \<Rightarrow> (Inr u, clearSession api')
      | (Inl e, api') \<Rightarrow> (Inl e, api'))"
| "call c outcome outcome2 api = client_request (wrapper c) outcome api"

text \<open>
  Whether the method sends its first request at all: the session methods throw before
  any request when no API key is configured.
\<close>

fun sends_request :: "api_call \<Rightarrow> CapitalAPI \<Rightarrow> bool" where
  "sends_request CreateSession api = truthy (apiKey api)"
| "sends_request CreateSessionWithEncryption api = truthy (apiKey api)"
| "sends_request GetEncryptionKey api = truthy (apiKey api)"
| "sends_request c api = True"

section \<open>Frames and example instances\<close>

text \<open>The frame that \<open>send\<close> writes for a message.\<close>

definition frame_of :: "WebSocketMessage \<Rightarrow> json" where
  "frame_of m = JSON_stringify (message_object m)"

text \<open>
  The instance of the round-trip scenario: constructed with \<open>{cst: 'a', securityToken:
  'b'}\<close>, after \<open>connect()\<close>, and after its socket has opened.
\<close>

definition config_ab :: CapitalWebSocketConfig where
  "config_ab = \<lparr>cfg_cst = ''a'', cfg_securityToken = ''b'', cfg_streamingUrl = None\<rparr>"

definition client_ab :: CapitalWebSocket where
  "client_ab = connect (new_CapitalWebSocket config_ab)"

definition open_client_ab :: CapitalWebSocket where
  "open_client_ab = snd (socket_open client_ab)"

text \<open>
  \<open>episodes k n\<close>: \<open>k\<close> times in a row, the connection fails \<open>n\<close> times and then the
  socket opens.
\<close>

fun episodes :: "nat \<Rightarrow> nat \<Rightarrow> CapitalWebSocket \<Rightarrow> CapitalWebSocket" where
  "episodes 0 n s = s"
| "episodes (Suc k) n s = snd (socket_open (failures n (episodes k n s)))"

text \<open>A REST client that holds an API key and a session.\<close>

definition api_xy :: CapitalAPI where
  "api_xy = \<lparr>baseUrl = ''https://api-capital.backend-capital.com'', apiKey = Some ''k'',
             api_cst = Some ''x'', api_securityToken = Some ''y''\<rparr>"

section \<open>Basic facts\<close>

lemma toString_digit: "n < 10 \<Longrightarrow> toString n = [digit_char n]"
  by (simp add: toString.simps)

lemma toString_1: "toString (Suc 0) = ''1''"
  by (simp add: toString_digit digit_char_def)

lemma createMessage_eq:
  "createMessage dest pl s =
     (\<lparr>destination = dest, correlationId = toString (Suc (correlationIdCounter s)),
        msg_cst = cst s, msg_securityToken = securityToken s, payload = pl\<rparr>,
      s\<lparr>correlationIdCounter := Suc (correlationIdCounter s)\<rparr>)"
  by (simp add: createMessage_def getNextCorrelationId_def Let_def)

lemma emit_Connect: "emit EvConnect s = (Inr (), s\<lparr>emitted := emitted s @ [EvConnect]\<rparr>)"
  by (simp add: emit_def)

lemma emit_Disconnect:
  "emit EvDisconnect s = (Inr (), s\<lparr>emitted := emitted s @ [EvDisconnect]\<rparr>)"
  by (simp add: emit_def)

lemma emit_Error:
  "emit (EvError e) s
     = (if errorListeners s = 0 then Inl e else Inr (), s\<lparr>emitted := emitted s @ [EvError e]\<rparr>)"
  by (simp add: emit_def Let_def)

lemma snd_emit: "snd (emit ev s) = s\<lparr>emitted := emitted s @ [ev]\<rparr>"
  by (cases ev) (simp_all add: emit_def Let_def)

lemma send_open:
  "ws s = Some OPEN \<Longrightarrow> send m s = (Inr (), s\<lparr>sent := sent s @ [frame_of m]\<rparr>)"
  by (simp add: send_def frame_of_def)

lemma forEach_send_open:
  "ws s = Some OPEN \<Longrightarrow>
   forEach_send table s = (Inr (), s\<lparr>sent := sent s @ map (\<lambda>(k, m). frame_of m) table\<rparr>)"
proof (induction table arbitrary: s)
  case Nil
  then show ?case by simp
next
  case (Cons entry rest)
  obtain k m where entry: "entry = (k, m)" by (cases entry)
  let ?s' = "s\<lparr>sent := sent s @ [frame_of m]\<rparr>"
  have open': "ws ?s' = Some OPEN" using Cons.prems by simp
  show ?case
    using Cons.IH [OF open'] by (simp add: entry send_open [OF Cons.prems])
qed

lemma onOpen_open:
  "ws s = Some OPEN \<Longrightarrow>
   onOpen s = (Inr (), s\<lparr>isConnected := True, reconnectAttempts := 0,
                           emitted := emitted s @ [EvConnect],
                           sent := sent s @ map (\<lambda>(k, m). frame_of m) (subscriptions s)\<rparr>)"
  by (simp add: onOpen_def emit_Connect forEach_send_open)

lemma socket_open_eq:
  "socket_open s =
     (Inr (), s\<lparr>ws := Some OPEN, isConnected := True, reconnectAttempts := 0,
                emitted := emitted s @ [EvConnect],
                sent := sent s @ map (\<lambda>(k, m). frame_of m) (subscriptions s)\<rparr>)"
  by (simp add: socket_open_def onOpen_open)

lemma open_client_ab_eq:
  "open_client_ab = \<lparr>ws = Some OPEN, cst = ''a'', securityToken = ''b'',
     streamingUrl = ''wss://api-streaming-capital.backend-capital.com/connect'',
     correlationIdCounter = 0, reconnectInterval = 5000, maxReconnectAttempts = 5,
     reconnectAttempts = 0, isConnected = True, subscriptions = [], errorListeners = 0,
     emitted = [EvConnect], sent = [], timers = [], sockets = 1\<rparr>"
  by (simp add: open_client_ab_def client_ab_def socket_open_eq connect_def
        new_CapitalWebSocket_def config_ab_def)

section \<open>Replay of the subscription table on open\<close>

text \<open>
  C3. Whenever the socket opens, every entry of the subscription table is sent again:
  \<open>onOpen\<close> on an open socket returns normally and appends to the frames sent exactly
  the frames of the stored messages, in table order, and the \<open>'open'\<close> event of the
  socket does so from any state (first connect or reconnect). As sets, the frames sent
  at open are the frames of the stored messages. The table itself is left as it was.
\<close>

theorem open_replays_table:
  "(ws s = Some OPEN \<longrightarrow>
      fst (onOpen s) = Inr ()
      \<and> sent (snd (onOpen s)) = sent s @ map (\<lambda>(k, m). frame_of m) (subscriptions s)
      \<and> subscriptions (snd (onOpen s)) = subscriptions s)
   \<and> fst (socket_open s) = Inr ()
   \<and> sent (snd (socket_open s)) = sent s @ map (\<lambda>(k, m). frame_of m) (subscriptions s)
   \<and> set (drop (length (sent s)) (sent (snd (socket_open s))))
       = (\<lambda>(k, m). frame_of m) ` set (subscriptions s)
   \<and> subscriptions (snd (socket_open s)) = subscriptions s"
  by (simp add: socket_open_eq onOpen_open)

theorem open_replays_table_witness:
  "ws (snd (subscribeToMarketData [''GOLD''] open_client_ab)) = Some OPEN
   \<and> sent (snd (onOpen (snd (subscribeToMarketData [''GOLD''] open_client_ab))))
       = [JObj [(''destination'', JStr ''marketData.subscribe''),
                (''correlationId'', JStr ''1''), (''cst'', JStr ''a''),
                (''securityToken'', JStr ''b''),
                (''payload'', JObj [(''epics'', JArr [JStr ''GOLD''])])],
          JObj [(''destination'', JStr ''marketData.subscribe''),
                (''correlationId'', JStr ''1''), (''cst'', JStr ''a''),
                (''securityToken'', JStr ''b''),
                (''payload'', JObj [(''epics'', JArr [JStr ''GOLD''])])]]"
proof -
  let ?s = "snd (subscribeToMarketData [''GOLD''] open_client_ab)"
  have h: "ws ?s = Some OPEN"
    by (simp add: subscribeToMarketData_def createMessage_eq send_def open_client_ab_eq)
  have "sent (snd (onOpen ?s)) = sent ?s @ map (\<lambda>(k, m). frame_of m) (subscriptions ?s)"
    using open_replays_table [of ?s] h by blast
  then show ?thesis
    using h
    by (simp add: subscribeToMarketData_def createMessage_eq send_def open_client_ab_eq
          frame_of_def message_object_def epics_json_def toString_1 marketData_key_def)
qed

section \<open>Sending while the socket is not open\<close>

text \<open>
  C4. Each of \<open>subscribeToMarketData\<close>, \<open>subscribeToOHLCData\<close>,
  \<open>unsubscribeFromMarketData\<close> and \<open>unsubscribeFromOHLCData\<close>, called while there is no
  socket or the socket's \<open>readyState\<close> is not 1, throws an Error whose message
  contains "not connected".
\<close>

theorem not_connected_throws:
  assumes "ws s \<noteq> Some OPEN"
  shows "fst (subscribeToMarketData epics s)
           = Inl (JsError ''Error'' ''WebSocket is not connected'')
    \<and> fst (subscribeToOHLCData epics resolutions type s)
           = Inl (JsError ''Error'' ''WebSocket is not connected'')
    \<and> fst (unsubscribeFromMarketData epics s)
           = Inl (JsError ''Error'' ''WebSocket is not connected'')
    \<and> fst (unsubscribeFromOHLCData epics resolutions types s)
           = Inl (JsError ''Error'' ''WebSocket is not connected'')
    \<and> str_includes (err_message (JsError ''Error'' ''WebSocket is not connected''))
          ''not connected''"
  using assms
  by (simp add: subscribeToMarketData_def subscribeToOHLCData_def unsubscribeFromMarketData_def
        unsubscribeFromOHLCData_def createMessage_eq send_def)

theorem not_connected_throws_witness:
  "ws (new_CapitalWebSocket config_ab) \<noteq> Some OPEN
   \<and> fst (subscribeToMarketData [''GOLD''] (new_CapitalWebSocket config_ab))
       = Inl (JsError ''Error'' ''WebSocket is not connected'')
   \<and> fst (unsubscribeFromOHLCData [''GOLD''] (Some [MINUTE]) None client_ab)
       = Inl (JsError ''Error'' ''WebSocket is not connected'')"
proof -
  have a: "ws (new_CapitalWebSocket config_ab) \<noteq> Some OPEN"
    by (simp add: new_CapitalWebSocket_def)
  have b: "ws client_ab \<noteq> Some OPEN"
    by (simp add: client_ab_def connect_def)
  show ?thesis
    using a not_connected_throws [OF a, of "[''GOLD'']"]
      not_connected_throws [OF b, of "[''GOLD'']" "Some [MINUTE]" None None]
    by simp
qed

section \<open>Malformed inbound frames\<close>

text \<open>
  C7, as the code has it. When \<open>JSON.parse\<close> rejects the body of an inbound frame,
  \<open>onMessage\<close> calls \<open>emit('error', ...)\<close> exactly once, with a message that starts
  with "Failed to parse WebSocket message", and changes nothing else: the socket, the
  connection flag and the subscription table are as before. When a listener for
  \<open>'error'\<close> is registered the handler returns normally. When none is registered,
  that \<open>emit\<close> throws its error, and the error leaves the handler.
\<close>

theorem malformed_frame_emits_one_error:
  "snd (onMessage (NotJSON e) s)
     = s\<lparr>emitted := emitted s @
          [EvError (JsError ''Error''
             (''Failed to parse WebSocket message: '' @ error_toString e))]\<rparr>
   \<and> ws (snd (onMessage (NotJSON e) s)) = ws s
   \<and> isConnected (snd (onMessage (NotJSON e) s)) = isConnected s
   \<and> subscriptions (snd (onMessage (NotJSON e) s)) = subscriptions s
   \<and> (0 < errorListeners s \<longrightarrow> fst (onMessage (NotJSON e) s) = Inr ())
   \<and> (errorListeners s = 0 \<longrightarrow>
        fst (onMessage (NotJSON e) s)
          = Inl (JsError ''Error''
                   (''Failed to parse WebSocket message: '' @ error_toString e)))"
  by (simp add: onMessage_def emit_Error)

theorem malformed_frame_emits_one_error_witness:
  "0 < errorListeners (on_error open_client_ab)
   \<and> errorListeners open_client_ab = 0
   \<and> onMessage (NotJSON (JsError ''SyntaxError'' ''Unexpected end of JSON input''))
        (on_error open_client_ab)
       = (Inr (), (on_error open_client_ab)\<lparr>emitted := [EvConnect,
            EvError (JsError ''Error'' (''Failed to parse WebSocket message: ''
               @ ''SyntaxError: Unexpected end of JSON input''))]\<rparr>)
   \<and> fst (onMessage (NotJSON (JsError ''SyntaxError'' ''Unexpected end of JSON input''))
        open_client_ab)
       = Inl (JsError ''Error'' (''Failed to parse WebSocket message: ''
               @ ''SyntaxError: Unexpected end of JSON input''))"
proof -
  let ?e = "JsError ''SyntaxError'' ''Unexpected end of JSON input''"
  have h: "0 < errorListeners (on_error open_client_ab)" "errorListeners open_client_ab = 0"
    by (simp_all add: on_error_def open_client_ab_eq)
  have a: "fst (onMessage (NotJSON ?e) (on_error open_client_ab)) = Inr ()"
    "snd (onMessage (NotJSON ?e) (on_error open_client_ab))
       = (on_error open_client_ab)\<lparr>emitted := emitted (on_error open_client_ab) @
          [EvError (JsError ''Error''
             (''Failed to parse WebSocket message: '' @ error_toString ?e))]\<rparr>"
    using h(1) malformed_frame_emits_one_error [of ?e "on_error open_client_ab"] by blast+
  have b: "fst (onMessage (NotJSON ?e) open_client_ab)
       = Inl (JsError ''Error'' (''Failed to parse WebSocket message: '' @ error_toString ?e))"
    using h(2) malformed_frame_emits_one_error [of ?e open_client_ab] by blast
  have c: "emitted (on_error open_client_ab) = [EvConnect]"
    by (simp add: on_error_def open_client_ab_eq)
  have "onMessage (NotJSON ?e) (on_error open_client_ab)
      = (fst (onMessage (NotJSON ?e) (on_error open_client_ab)),
         snd (onMessage (NotJSON ?e) (on_error open_client_ab)))"
    by simp
  then show ?thesis
    unfolding a b c using h by (simp add: error_toString_def)
qed

text \<open>
  C7, as stated, fails: an instance on which no \<open>'error'\<close> listener has been
  registered, as every instance is when constructed, throws out of \<open>onMessage\<close> on a
  frame that is not JSON.
\<close>

theorem malformed_frame_throws_counterexample:
  "fst (onMessage (NotJSON (JsError ''SyntaxError'' ''Unexpected end of JSON input''))
         open_client_ab)
     = Inl (JsError ''Error''
         ''Failed to parse WebSocket message: SyntaxError: Unexpected end of JSON input'')"
  by (simp add: onMessage_def emit_Error open_client_ab_eq error_toString_def)

section \<open>Facts about the table and the frames\<close>

lemma map_of_Map_set: "map_of (Map_set k v m) k = Some v"
  by (induction m) auto

lemma Map_set_mem: "(k, v) \<in> set (Map_set k v m)"
  by (induction m) auto

lemma replay_mem:
  "frame_of m \<in> (\<lambda>(k, m). frame_of m) ` set (Map_set k m table)"
  using Map_set_mem [of k m table] by force

lemma Map_delete_key: "k \<notin> fst ` set (Map_delete k m)"
  by (auto simp: Map_delete_def)

lemma Map_delete_Map_set: "Map_delete k (Map_set k v m) = Map_delete k m"
  by (induction m) (auto simp: Map_delete_def)

lemma stringify_strings:
  "map (\<lambda>x. if x = JUndefined then JNull else JSON_stringify x) (map JStr xs) = map JStr xs"
  by (induction xs) simp_all

lemma frame_of_eq:
  "frame_of m =
     JObj ([(''destination'', JStr (destination m)),
            (''correlationId'', JStr (correlationId m)),
            (''cst'', JStr (msg_cst m)),
            (''securityToken'', JStr (msg_securityToken m))]
           @ (if payload m = JUndefined then []
              else [(''payload'', JSON_stringify (payload m))]))"
  by (simp add: frame_of_def message_object_def)

lemma forEach_send_attempts:
  "reconnectAttempts (snd (forEach_send table s)) = reconnectAttempts s"
proof (induction table arbitrary: s)
  case Nil
  show ?case by simp
next
  case (Cons entry rest)
  show ?case by (cases entry) (simp add: send_def Cons.IH)
qed

lemma onOpen_resets: "reconnectAttempts (snd (onOpen s)) = 0"
  by (simp add: onOpen_def emit_Connect forEach_send_attempts)

section \<open>The reconnect counter\<close>

lemma failure_low:
  "reconnectAttempts s < maxReconnectAttempts s \<Longrightarrow> timers s = [] \<Longrightarrow>
   failure s = s\<lparr>ws := Some CONNECTING, isConnected := False,
                  emitted := emitted s @ [EvDisconnect],
                  reconnectAttempts := Suc (reconnectAttempts s),
                  sockets := Suc (sockets s)\<rparr>"
  by (simp add: failure_def socket_close_def onClose_def emit_Disconnect snd_emit connect_def
        Let_def)

lemma failure_high:
  "\<not> reconnectAttempts s < maxReconnectAttempts s \<Longrightarrow> timers s = [] \<Longrightarrow>
   failure s = s\<lparr>ws := Some CLOSED, isConnected := False,
                  emitted := emitted s @ [EvDisconnect,
                    EvError (JsError ''Error'' ''Max reconnection attempts reached'')]\<rparr>"
  by (simp add: failure_def socket_close_def onClose_def emit_Disconnect snd_emit connect_def
        Let_def)

lemma socket_close_low:
  "reconnectAttempts s < maxReconnectAttempts s \<Longrightarrow>
   socket_close s = s\<lparr>ws := Some CLOSED, isConnected := False,
                  emitted := emitted s @ [EvDisconnect],
                  reconnectAttempts := Suc (reconnectAttempts s),
                  timers := timers s @ [reconnectInterval s]\<rparr>"
  by (simp add: socket_close_def onClose_def emit_Disconnect snd_emit Let_def)

lemma socket_close_high:
  "\<not> reconnectAttempts s < maxReconnectAttempts s \<Longrightarrow>
   socket_close s = s\<lparr>ws := Some CLOSED, isConnected := False,
                  emitted := emitted s @ [EvDisconnect,
                    EvError (JsError ''Error'' ''Max reconnection attempts reached'')]\<rparr>"
  by (simp add: socket_close_def onClose_def emit_Disconnect snd_emit Let_def)

lemma failures_within_budget:
  "timers s = [] \<Longrightarrow> reconnectAttempts s + n \<le> maxReconnectAttempts s \<Longrightarrow>
   timers (failures n s) = []
   \<and> maxReconnectAttempts (failures n s) = maxReconnectAttempts s
   \<and> reconnectAttempts (failures n s) = reconnectAttempts s + n
   \<and> emitted (failures n s) = emitted s @ replicate n EvDisconnect
   \<and> sockets (failures n s) = sockets s + n"
proof (induction n)
  case 0
  then show ?case by simp
next
  case (Suc n)
  let ?t = "failures n s"
  have ih: "timers ?t = []" "maxReconnectAttempts ?t = maxReconnectAttempts s"
    "reconnectAttempts ?t = reconnectAttempts s + n"
    "emitted ?t = emitted s @ replicate n EvDisconnect"
    "sockets ?t = sockets s + n"
    using Suc by simp_all
  have low: "reconnectAttempts ?t < maxReconnectAttempts ?t"
    using ih Suc.prems by simp
  show ?case
    by (simp add: failure_low [OF low ih(1)] ih replicate_append_same)
qed

text \<open>Once the budget is used up, a failure only emits the two events.\<close>

lemma failures_beyond_budget:
  "timers s = [] \<Longrightarrow> maxReconnectAttempts s \<le> reconnectAttempts s \<Longrightarrow>
   timers (failures n s) = []
   \<and> maxReconnectAttempts (failures n s) = maxReconnectAttempts s
   \<and> reconnectAttempts (failures n s) = reconnectAttempts s
   \<and> emitted (failures n s) = emitted s @ concat (replicate n [EvDisconnect,
         EvError (JsError ''Error'' ''Max reconnection attempts reached'')])
   \<and> sockets (failures n s) = sockets s"
proof (induction n)
  case 0
  then show ?case by simp
next
  case (Suc n)
  let ?t = "failures n s"
  let ?pair = "[EvDisconnect, EvError (JsError ''Error'' ''Max reconnection attempts reached'')]"
  have ih: "timers ?t = []" "maxReconnectAttempts ?t = maxReconnectAttempts s"
    "reconnectAttempts ?t = reconnectAttempts s"
    "emitted ?t = emitted s @ concat (replicate n ?pair)"
    "sockets ?t = sockets s"
    using Suc by simp_all
  have high: "\<not> reconnectAttempts ?t < maxReconnectAttempts ?t"
    using ih Suc.prems by simp
  have "concat (replicate (Suc n) ?pair) = concat (replicate n ?pair) @ ?pair"
    by (induction n) simp_all
  then show ?case
    by (simp add: failure_high [OF high ih(1)] ih)
qed

lemma failures_add: "failures (m + n) s = failures n (failures m s)"
  by (induction n) simp_all

lemma reconnectInterval_failures:
  "reconnectInterval (failures n s) = reconnectInterval s"
proof (induction n)
  case 0
  show ?case by simp
next
  case (Suc n)
  then show ?case
    by (simp add: failure_def socket_close_def onClose_def emit_Disconnect snd_emit connect_def
          Let_def split: list.split)
qed

lemma fresh_client:
  "timers (connect (new_CapitalWebSocket config)) = []"
  "reconnectAttempts (connect (new_CapitalWebSocket config)) = 0"
  "maxReconnectAttempts (connect (new_CapitalWebSocket config)) = 5"
  "reconnectInterval (connect (new_CapitalWebSocket config)) = 5000"
  "emitted (connect (new_CapitalWebSocket config)) = []"
  "sockets (connect (new_CapitalWebSocket config)) = 1"
  by (simp_all add: connect_def new_CapitalWebSocket_def)

lemma max_attempts_text:
  "is_max_attempts_error (EvError (JsError ''Error'' ''Max reconnection attempts reached''))"
  by simp

lemma no_error_in_disconnects:
  "\<not> list_ex is_max_attempts_error (replicate n EvDisconnect)"
  by (induction n) simp_all

lemma no_error_in_rounds:
  "\<not> list_ex is_max_attempts_error (concat (replicate k (replicate n EvDisconnect @ [EvConnect])))"
  by (induction k) (simp_all add: no_error_in_disconnects)

lemma episodes_fields:
  assumes "timers s = []" "reconnectAttempts s = 0" "n \<le> maxReconnectAttempts s"
  shows "timers (episodes k n s) = []
     \<and> reconnectAttempts (episodes k n s) = 0
     \<and> maxReconnectAttempts (episodes k n s) = maxReconnectAttempts s
     \<and> sockets (episodes k n s) = sockets s + k * n
     \<and> emitted (episodes k n s)
         = emitted s @ concat (replicate k (replicate n EvDisconnect @ [EvConnect]))"
proof (induction k)
  case 0
  show ?case using assms by simp
next
  case (Suc k)
  let ?t = "episodes k n s"
  let ?round = "replicate n EvDisconnect @ [EvConnect]"
  have ih: "timers ?t = []" "reconnectAttempts ?t = 0"
    "maxReconnectAttempts ?t = maxReconnectAttempts s"
    "sockets ?t = sockets s + k * n"
    "emitted ?t = emitted s @ concat (replicate k ?round)"
    using Suc by simp_all
  have budget: "reconnectAttempts ?t + n \<le> maxReconnectAttempts ?t"
    using ih assms(3) by simp
  note f = failures_within_budget [OF ih(1) budget]
  have r: "concat (replicate (Suc k) ?round) = concat (replicate k ?round) @ ?round"
    by (induction k) simp_all
  show ?case
    using f by (simp add: socket_open_eq ih r del: replicate.simps concat.simps)
qed

text \<open>
  C1, as the code has it. On an instance constructed with the defaults and connected
  once, each of the first five consecutive closes arms the 5000 ms reconnect timer and
  emits no \<open>'error'\<close>; when the timers have fired, six sockets have been constructed
  (the first one and five reconnects). The terminal \<open>'error'\<close> "Max reconnection
  attempts reached" is emitted by the sixth consecutive close, that is, when the fifth
  reconnect has failed. From then on no close arms a timer and no further socket is
  constructed, however many closes follow.
\<close>

theorem reconnect_budget:
  assumes "s0 = connect (new_CapitalWebSocket config)"
  shows "(\<forall>n\<le>5. emitted (failures n s0) = replicate n EvDisconnect
                \<and> \<not> list_ex is_max_attempts_error (emitted (failures n s0))
                \<and> sockets (failures n s0) = Suc n)
       \<and> (\<forall>n<5. timers (socket_close (failures n s0)) = [5000])
       \<and> emitted (socket_close (failures 5 s0))
           = replicate 6 EvDisconnect
               @ [EvError (JsError ''Error'' ''Max reconnection attempts reached'')]
       \<and> is_max_attempts_error (last (emitted (socket_close (failures 5 s0))))
       \<and> (\<forall>n\<ge>5. timers (socket_close (failures n s0)) = []
                \<and> sockets (failures n s0) = 6)"
proof -
  note fresh = fresh_client [of config, folded assms]
  have within: "timers (failures n s0) = [] \<and> maxReconnectAttempts (failures n s0) = 5
      \<and> reconnectAttempts (failures n s0) = n
      \<and> emitted (failures n s0) = replicate n EvDisconnect
      \<and> sockets (failures n s0) = Suc n" if "n \<le> 5" for n
    using failures_within_budget [of s0 n] that fresh by simp
  have five: "timers (failures 5 s0) = []" "maxReconnectAttempts (failures 5 s0) = 5"
      "reconnectAttempts (failures 5 s0) = 5"
      "emitted (failures 5 s0) = replicate 5 EvDisconnect"
      "sockets (failures 5 s0) = 6"
    using within [of 5] by simp_all
  have beyond: "timers (failures k (failures 5 s0)) = []
      \<and> maxReconnectAttempts (failures k (failures 5 s0)) = 5
      \<and> reconnectAttempts (failures k (failures 5 s0)) = 5
      \<and> sockets (failures k (failures 5 s0)) = 6" for k
    using failures_beyond_budget [of "failures 5 s0" k] five by simp
  have a: "\<forall>n\<le>5. emitted (failures n s0) = replicate n EvDisconnect
                \<and> \<not> list_ex is_max_attempts_error (emitted (failures n s0))
                \<and> sockets (failures n s0) = Suc n"
    using within no_error_in_disconnects by simp
  have b: "\<forall>n<5. timers (socket_close (failures n s0)) = [5000]"
  proof (intro allI impI)
    fix n :: nat
    assume "n < 5"
    then have w: "timers (failures n s0) = []" "maxReconnectAttempts (failures n s0) = 5"
      "reconnectAttempts (failures n s0) = n"
      using within [of n] by simp_all
    have low: "reconnectAttempts (failures n s0) < maxReconnectAttempts (failures n s0)"
      using w \<open>n < 5\<close> by simp
    show "timers (socket_close (failures n s0)) = [5000]"
      by (simp add: socket_close_low [OF low] w reconnectInterval_failures fresh)
  qed
  have high5: "\<not> reconnectAttempts (failures 5 s0) < maxReconnectAttempts (failures 5 s0)"
    using five by simp
  have c: "emitted (socket_close (failures 5 s0))
           = replicate 6 EvDisconnect
               @ [EvError (JsError ''Error'' ''Max reconnection attempts reached'')]"
  proof -
    have "emitted (socket_close (failures 5 s0))
           = replicate 5 EvDisconnect
               @ [EvDisconnect, EvError (JsError ''Error'' ''Max reconnection attempts reached'')]"
      by (simp add: socket_close_high [OF high5] five)
    also have "\<dots> = replicate 6 EvDisconnect
               @ [EvError (JsError ''Error'' ''Max reconnection attempts reached'')]"
      by (simp add: numeral_eq_Suc)
    finally show ?thesis .
  qed
  have d: "is_max_attempts_error (last (emitted (socket_close (failures 5 s0))))"
    unfolding c by (simp only: last_snoc max_attempts_text)
  have e: "\<forall>n\<ge>5. timers (socket_close (failures n s0)) = [] \<and> sockets (failures n s0) = 6"
  proof (intro allI impI)
    fix n :: nat
    assume "5 \<le> n"
    then obtain k where n: "n = 5 + k" using le_Suc_ex by blast
    have split: "failures n s0 = failures k (failures 5 s0)"
      unfolding n by (rule failures_add)
    let ?t = "failures k (failures 5 s0)"
    have high: "\<not> reconnectAttempts ?t < maxReconnectAttempts ?t"
      using beyond [of k] by simp
    have "timers (socket_close ?t) = [] \<and> sockets ?t = 6"
      using beyond [of k] by (simp add: socket_close_high [OF high])
    then show "timers (socket_close (failures n s0)) = [] \<and> sockets (failures n s0) = 6"
      by (simp only: split)
  qed
  show ?thesis using a b c d e by blast
qed

theorem reconnect_budget_witness:
  "client_ab = connect (new_CapitalWebSocket config_ab)
   \<and> sockets (failures 5 client_ab) = 6
   \<and> timers (socket_close (failures 4 client_ab)) = [5000]
   \<and> sockets (failures 9 client_ab) = 6
   \<and> timers (socket_close (failures 9 client_ab)) = []"
proof -
  have h: "client_ab = connect (new_CapitalWebSocket config_ab)"
    by (simp add: client_ab_def)
  show ?thesis
    using h reconnect_budget [OF h] by simp
qed

text \<open>
  C1, as stated, fails: after five consecutive closes no \<open>'error'\<close> has been emitted,
  the fifth close has armed a reconnect timer, and a sixth socket is constructed.
\<close>

theorem five_closes_counterexample:
  "\<not> list_ex is_max_attempts_error (emitted (socket_close (failures 4 client_ab)))
   \<and> timers (socket_close (failures 4 client_ab)) = [5000]
   \<and> \<not> list_ex is_max_attempts_error (emitted (failures 5 client_ab))
   \<and> sockets (failures 5 client_ab) = 6"
proof -
  have h: "client_ab = connect (new_CapitalWebSocket config_ab)"
    by (simp add: client_ab_def)
  note fresh = fresh_client [of config_ab, folded h]
  have four: "timers (failures 4 client_ab) = []"
    "maxReconnectAttempts (failures 4 client_ab) = 5"
    "reconnectAttempts (failures 4 client_ab) = 4"
    "emitted (failures 4 client_ab) = replicate 4 EvDisconnect"
    using failures_within_budget [of client_ab 4] fresh by simp_all
  have low: "reconnectAttempts (failures 4 client_ab) < maxReconnectAttempts (failures 4 client_ab)"
    using four by simp
  have five: "emitted (failures 5 client_ab) = replicate 5 EvDisconnect"
    "sockets (failures 5 client_ab) = 6"
    using failures_within_budget [of client_ab 5] fresh by simp_all
  have a: "emitted (socket_close (failures 4 client_ab))
             = replicate 4 EvDisconnect @ [EvDisconnect]"
    by (simp add: socket_close_low [OF low] four)
  have b: "timers (socket_close (failures 4 client_ab)) = [5000]"
    by (simp add: socket_close_low [OF low] four reconnectInterval_failures fresh)
  show ?thesis
    unfolding a b five by (simp add: no_error_in_disconnects)
qed

text \<open>
  C10. Every run of \<open>onOpen\<close>, and so every open of the socket, leaves the reconnect
  counter at 0. So the budget bounds the failures in a row, not the reconnects of a
  lifetime: over \<open>k\<close> episodes of \<open>n\<close> failures followed by an open, with \<open>n\<close> within the
  budget, \<open>k * n\<close> reconnect sockets are constructed and no terminal \<open>'error'\<close> is
  emitted.
\<close>

theorem open_resets_attempts:
  "reconnectAttempts (snd (onOpen s)) = 0
   \<and> reconnectAttempts (snd (socket_open s)) = 0
   \<and> (timers s = [] \<and> reconnectAttempts s = 0 \<and> n \<le> maxReconnectAttempts s \<longrightarrow>
        sockets (episodes k n s) = sockets s + k * n
        \<and> emitted (episodes k n s)
            = emitted s @ concat (replicate k (replicate n EvDisconnect @ [EvConnect]))
        \<and> \<not> list_ex is_max_attempts_error (drop (length (emitted s)) (emitted (episodes k n s))))"
proof -
  have a: "reconnectAttempts (snd (onOpen s)) = 0"
    by (rule onOpen_resets)
  have b: "reconnectAttempts (snd (socket_open s)) = 0"
    unfolding socket_open_def by (rule onOpen_resets)
  have c: "sockets (episodes k n s) = sockets s + k * n
        \<and> emitted (episodes k n s)
            = emitted s @ concat (replicate k (replicate n EvDisconnect @ [EvConnect]))
        \<and> \<not> list_ex is_max_attempts_error (drop (length (emitted s)) (emitted (episodes k n s)))"
    if "timers s = []" "reconnectAttempts s = 0" "n \<le> maxReconnectAttempts s"
    using episodes_fields [OF that, of k] no_error_in_rounds [of k n]
    by simp
  show ?thesis using a b c by blast
qed

theorem open_resets_attempts_witness:
  "timers client_ab = [] \<and> reconnectAttempts client_ab = 0
   \<and> (4::nat) \<le> maxReconnectAttempts client_ab
   \<and> sockets (episodes 3 4 client_ab) = 13
   \<and> \<not> list_ex is_max_attempts_error (emitted (episodes 3 4 client_ab))"
proof -
  have h: "timers client_ab = [] \<and> reconnectAttempts client_ab = 0
           \<and> (4::nat) \<le> maxReconnectAttempts client_ab"
          "sockets client_ab = 1" "emitted client_ab = []"
    by (simp_all add: client_ab_def connect_def new_CapitalWebSocket_def)
  have "sockets (episodes 3 4 client_ab) = sockets client_ab + 3 * 4
      \<and> \<not> list_ex is_max_attempts_error
            (drop (length (emitted client_ab)) (emitted (episodes 3 4 client_ab)))"
    using h(1) open_resets_attempts [of client_ab 4 3] by blast
  then show ?thesis
    using h by simp
qed

section \<open>Subscribing and unsubscribing\<close>

text \<open>
  C5. \<open>unsubscribeFromMarketData\<close> with the epic list of an earlier
  \<open>subscribeToMarketData\<close> removes the entry that the subscription stored: after it the
  key is absent, and the table is the one before the subscription without that key.
  The same holds for \<open>unsubscribeFromOHLCData\<close> with the epics and resolutions of an
  earlier \<open>subscribeToOHLCData\<close> and with its type, given as the array the method
  takes. What an open replays is the table, so the removed entry is not replayed.
\<close>

theorem unsubscribe_removes_entry:
  "marketData_key epics
     \<notin> fst ` set (subscriptions (snd (unsubscribeFromMarketData epics s)))
   \<and> subscriptions (snd (unsubscribeFromMarketData epics (snd (subscribeToMarketData epics s))))
       = Map_delete (marketData_key epics) (subscriptions s)
   \<and> (tys = map_option (\<lambda>t. [t]) ty \<longrightarrow>
        ohlc_subscribe_key epics resolutions ty
          \<notin> fst ` set (subscriptions (snd (unsubscribeFromOHLCData epics resolutions tys s)))
        \<and> subscriptions (snd (unsubscribeFromOHLCData epics resolutions tys
                                  (snd (subscribeToOHLCData epics resolutions ty s))))
            = Map_delete (ohlc_subscribe_key epics resolutions ty) (subscriptions s))
   \<and> drop (length (sent s)) (sent (snd (socket_open s)))
       = map (\<lambda>(k, m). frame_of m) (subscriptions s)"
proof -
  have key: "ohlc_unsubscribe_key epics resolutions (map_option (\<lambda>t. [t]) ty)
             = ohlc_subscribe_key epics resolutions ty"
    by (cases ty) (simp_all add: ohlc_unsubscribe_key_def ohlc_subscribe_key_def)
  have sub: "subscriptions (snd (send m t)) = subscriptions t" for m t
    by (simp add: send_def)
  have a: "marketData_key epics
     \<notin> fst ` set (subscriptions (snd (unsubscribeFromMarketData epics s)))"
    by (simp add: unsubscribeFromMarketData_def createMessage_eq sub Map_delete_key)
  have b: "subscriptions (snd (unsubscribeFromMarketData epics (snd (subscribeToMarketData epics s))))
       = Map_delete (marketData_key epics) (subscriptions s)"
    by (simp add: unsubscribeFromMarketData_def subscribeToMarketData_def createMessage_eq sub
          Map_delete_Map_set)
  have c: "ohlc_subscribe_key epics resolutions ty
          \<notin> fst ` set (subscriptions (snd (unsubscribeFromOHLCData epics resolutions
                                               (map_option (\<lambda>t. [t]) ty) s)))"
    by (simp add: unsubscribeFromOHLCData_def createMessage_eq sub key Map_delete_key)
  have d: "subscriptions (snd (unsubscribeFromOHLCData epics resolutions (map_option (\<lambda>t. [t]) ty)
                                  (snd (subscribeToOHLCData epics resolutions ty s))))
            = Map_delete (ohlc_subscribe_key epics resolutions ty) (subscriptions s)"
    by (simp add: unsubscribeFromOHLCData_def subscribeToOHLCData_def createMessage_eq sub key
          Map_delete_Map_set)
  have e: "drop (length (sent s)) (sent (snd (socket_open s)))
       = map (\<lambda>(k, m). frame_of m) (subscriptions s)"
    by (simp add: socket_open_eq)
  show ?thesis using a b c d e by blast
qed

theorem unsubscribe_removes_entry_witness:
  "Some [HeikinAshi] = map_option (\<lambda>t. [t]) (Some HeikinAshi)
   \<and> subscriptions (snd (subscribeToOHLCData [''GOLD''] (Some [MINUTE]) (Some HeikinAshi)
                            open_client_ab)) \<noteq> []
   \<and> subscriptions (snd (unsubscribeFromOHLCData [''GOLD''] (Some [MINUTE]) (Some [HeikinAshi])
        (snd (subscribeToOHLCData [''GOLD''] (Some [MINUTE]) (Some HeikinAshi) open_client_ab))))
       = []"
proof -
  have h: "Some [HeikinAshi] = map_option (\<lambda>t. [t]) (Some HeikinAshi)" by simp
  have "subscriptions (snd (unsubscribeFromOHLCData [''GOLD''] (Some [MINUTE]) (Some [HeikinAshi])
        (snd (subscribeToOHLCData [''GOLD''] (Some [MINUTE]) (Some HeikinAshi) open_client_ab))))
       = Map_delete (ohlc_subscribe_key [''GOLD''] (Some [MINUTE]) (Some HeikinAshi))
           (subscriptions open_client_ab)"
    using h unsubscribe_removes_entry
      [where tys = "Some [HeikinAshi]" and ty = "Some HeikinAshi" and epics = "[''GOLD'']"
         and resolutions = "Some [MINUTE]" and s = open_client_ab]
    by blast
  then show ?thesis
    by (simp add: open_client_ab_eq Map_delete_def subscribeToOHLCData_def createMessage_eq
          send_def)
qed

text \<open>
  C6. On a connected client whose tokens are \<open>'a'\<close> and \<open>'b'\<close>,
  \<open>subscribeToMarketData(['GOLD'])\<close> returns normally and the last frame sent is the
  object with destination \<open>marketData.subscribe\<close>, payload \<open>{epics: ['GOLD']}\<close>, cst
  \<open>'a'\<close>, securityToken \<open>'b'\<close>, and as correlationId the decimal string of the
  incremented counter.
\<close>

theorem market_data_frame:
  assumes "cst s = ''a''" and "securityToken s = ''b''" and "ws s = Some OPEN"
  shows "fst (subscribeToMarketData [''GOLD''] s) = Inr ()
    \<and> sent (snd (subscribeToMarketData [''GOLD''] s)) \<noteq> []
    \<and> last (sent (snd (subscribeToMarketData [''GOLD''] s)))
        = JObj [(''destination'', JStr ''marketData.subscribe''),
                (''correlationId'', JStr (toString (Suc (correlationIdCounter s)))),
                (''cst'', JStr ''a''),
                (''securityToken'', JStr ''b''),
                (''payload'', JObj [(''epics'', JArr [JStr ''GOLD''])])]"
  using assms
  by (simp add: subscribeToMarketData_def createMessage_eq send_def message_object_def
        epics_json_def)

theorem market_data_frame_witness:
  "cst open_client_ab = ''a'' \<and> securityToken open_client_ab = ''b''
   \<and> ws open_client_ab = Some OPEN
   \<and> last (sent (snd (subscribeToMarketData [''GOLD''] open_client_ab)))
        = JObj [(''destination'', JStr ''marketData.subscribe''),
                (''correlationId'', JStr ''1''),
                (''cst'', JStr ''a''),
                (''securityToken'', JStr ''b''),
                (''payload'', JObj [(''epics'', JArr [JStr ''GOLD''])])]"
proof -
  have h: "cst open_client_ab = ''a''" "securityToken open_client_ab = ''b''"
    "ws open_client_ab = Some OPEN" "correlationIdCounter open_client_ab = 0"
    by (simp_all add: open_client_ab_eq)
  show ?thesis
    using h market_data_frame [OF h(1) h(2) h(3)] by (simp add: toString_1)
qed

text \<open>
  C8. \<open>subscribeToMarketData\<close> and \<open>subscribeToOHLCData\<close>, called while the socket is
  not open, throw, and yet the table then holds the new message under its key: the
  registration precedes the send and is not undone. When the socket opens next, the
  frame of that message is among the frames sent.
\<close>

theorem failed_subscribe_stays_registered:
  assumes "ws s \<noteq> Some OPEN"
  shows "fst (subscribeToMarketData epics s) = Inl (JsError ''Error'' ''WebSocket is not connected'')
    \<and> map_of (subscriptions (snd (subscribeToMarketData epics s))) (marketData_key epics)
        = Some (fst (createMessage ''marketData.subscribe''
                       (JObj [(''epics'', epics_json epics)]) s))
    \<and> frame_of (fst (createMessage ''marketData.subscribe''
                       (JObj [(''epics'', epics_json epics)]) s))
        \<in> set (drop (length (sent (snd (subscribeToMarketData epics s))))
                 (sent (snd (socket_open (snd (subscribeToMarketData epics s))))))
    \<and> fst (subscribeToOHLCData epics resolutions type s)
        = Inl (JsError ''Error'' ''WebSocket is not connected'')
    \<and> map_of (subscriptions (snd (subscribeToOHLCData epics resolutions type s)))
          (ohlc_subscribe_key epics resolutions type)
        = Some (fst (createMessage ''OHLCMarketData.subscribe''
             (JObj [(''epics'', epics_json epics),
                    (''resolutions'', optional resolutions_json resolutions),
                    (''type'', optional (\<lambda>t. JStr (CandleType_str t)) type)]) s))
    \<and> frame_of (fst (createMessage ''OHLCMarketData.subscribe''
             (JObj [(''epics'', epics_json epics),
                    (''resolutions'', optional resolutions_json resolutions),
                    (''type'', optional (\<lambda>t. JStr (CandleType_str t)) type)]) s))
        \<in> set (drop (length (sent (snd (subscribeToOHLCData epics resolutions type s))))
                 (sent (snd (socket_open (snd (subscribeToOHLCData epics resolutions type s))))))"
  using assms
  by (simp add: subscribeToMarketData_def subscribeToOHLCData_def createMessage_eq send_def
        socket_open_eq map_of_Map_set replay_mem)

theorem failed_subscribe_stays_registered_witness:
  "ws client_ab \<noteq> Some OPEN
   \<and> fst (subscribeToMarketData [''GOLD''] client_ab)
       = Inl (JsError ''Error'' ''WebSocket is not connected'')
   \<and> sent (snd (socket_open (snd (subscribeToMarketData [''GOLD''] client_ab))))
       = [JObj [(''destination'', JStr ''marketData.subscribe''),
                (''correlationId'', JStr ''1''),
                (''cst'', JStr ''a''),
                (''securityToken'', JStr ''b''),
                (''payload'', JObj [(''epics'', JArr [JStr ''GOLD''])])]]"
proof -
  have h: "ws client_ab \<noteq> Some OPEN"
    by (simp add: client_ab_def connect_def)
  have "fst (subscribeToMarketData [''GOLD''] client_ab)
       = Inl (JsError ''Error'' ''WebSocket is not connected'')"
    using failed_subscribe_stays_registered [OF h] by blast
  then show ?thesis
    using h
    by (simp add: socket_open_eq subscribeToMarketData_def createMessage_eq send_def
          client_ab_def connect_def new_CapitalWebSocket_def config_ab_def frame_of_def
          message_object_def epics_json_def toString_1 marketData_key_def)
qed

text \<open>
  C9. \<open>updateTokens\<close> changes the two token fields of the client and nothing else; the
  table is untouched, so an open after it replays the frames of the stored messages
  as they were. A message created after \<open>updateTokens\<close> carries the new tokens. A
  message stored by a subscription carries, in the table and in its frame, the tokens
  the client had when the subscription was made, whatever \<open>updateTokens\<close> did since.
\<close>

theorem updateTokens_leaves_table:
  "updateTokens c t s = s\<lparr>cst := c, securityToken := t\<rparr>
   \<and> subscriptions (updateTokens c t s) = subscriptions s
   \<and> sent (snd (socket_open (updateTokens c t s)))
       = sent s @ map (\<lambda>(k, m). frame_of m) (subscriptions s)
   \<and> msg_cst (fst (createMessage dest pl (updateTokens c t s))) = c
   \<and> msg_securityToken (fst (createMessage dest pl (updateTokens c t s))) = t
   \<and> map_of (subscriptions (updateTokens c t (snd (subscribeToMarketData epics s))))
        (marketData_key epics)
       = Some \<lparr>destination = ''marketData.subscribe'',
                correlationId = toString (Suc (correlationIdCounter s)),
                msg_cst = cst s, msg_securityToken = securityToken s,
                payload = JObj [(''epics'', epics_json epics)]\<rparr>
   \<and> JObj [(''destination'', JStr ''marketData.subscribe''),
            (''correlationId'', JStr (toString (Suc (correlationIdCounter s)))),
            (''cst'', JStr (cst s)),
            (''securityToken'', JStr (securityToken s)),
            (''payload'', JObj [(''epics'', JArr (map JStr epics))])]
       \<in> set (drop (length (sent (snd (subscribeToMarketData epics s))))
                (sent (snd (socket_open
                   (updateTokens c t (snd (subscribeToMarketData epics s)))))))"
proof -
  let ?m = "\<lparr>destination = ''marketData.subscribe'',
             correlationId = toString (Suc (correlationIdCounter s)),
             msg_cst = cst s, msg_securityToken = securityToken s,
             payload = JObj [(''epics'', epics_json epics)]\<rparr>"
  have fields: "updateTokens c t s = s\<lparr>cst := c, securityToken := t\<rparr>"
    by (simp add: updateTokens_def)
  have table: "subscriptions (updateTokens c t s) = subscriptions s"
    by (simp add: updateTokens_def)
  have replay: "sent (snd (socket_open (updateTokens c t s)))
       = sent s @ map (\<lambda>(k, m). frame_of m) (subscriptions s)"
    by (simp add: updateTokens_def socket_open_eq)
  have fresh: "msg_cst (fst (createMessage dest pl (updateTokens c t s))) = c"
    "msg_securityToken (fst (createMessage dest pl (updateTokens c t s))) = t"
    by (simp_all add: updateTokens_def createMessage_eq)
  have stored: "map_of (subscriptions (updateTokens c t (snd (subscribeToMarketData epics s))))
        (marketData_key epics) = Some ?m"
    by (simp add: updateTokens_def createMessage_eq subscribeToMarketData_def send_def
          map_of_Map_set)
  have frame: "frame_of ?m
       = JObj [(''destination'', JStr ''marketData.subscribe''),
               (''correlationId'', JStr (toString (Suc (correlationIdCounter s)))),
               (''cst'', JStr (cst s)),
               (''securityToken'', JStr (securityToken s)),
               (''payload'', JObj [(''epics'', JArr (map JStr epics))])]"
    by (simp add: frame_of_eq epics_json_def stringify_strings)
  have "frame_of ?m
       \<in> set (drop (length (sent (snd (subscribeToMarketData epics s))))
                (sent (snd (socket_open
                   (updateTokens c t (snd (subscribeToMarketData epics s)))))))"
    by (simp add: updateTokens_def socket_open_eq createMessage_eq subscribeToMarketData_def
          send_def replay_mem)
  then have old_tokens: "JObj [(''destination'', JStr ''marketData.subscribe''),
            (''correlationId'', JStr (toString (Suc (correlationIdCounter s)))),
            (''cst'', JStr (cst s)),
            (''securityToken'', JStr (securityToken s)),
            (''payload'', JObj [(''epics'', JArr (map JStr epics))])]
       \<in> set (drop (length (sent (snd (subscribeToMarketData epics s))))
                (sent (snd (socket_open
                   (updateTokens c t (snd (subscribeToMarketData epics s)))))))"
    unfolding frame .
  show ?thesis
    using fields table replay fresh stored old_tokens by blast
qed

section \<open>The session after a 401 response\<close>

text \<open>
  C2, as the code has it. A 401 response to a request sent through \<open>this.client\<close>
  runs the response interceptor, which clears the session: for every REST method
  other than \<open>createSession\<close>, when the method has sent its first request and the
  response is a 401, the method throws, \<open>isAuthenticated()\<close> is false afterwards and
  both stored tokens are undefined. For all of these methods but one the first
  request is the only one. The session POST is the exception: \<open>createSession\<close>, and
  \<open>createSessionWithEncryption\<close> as its second request, send it through a temporary
  axios instance that has no interceptor, and a 401 response to it leaves the client
  as it was.
\<close>

theorem unauthorized_clears_session:
  "(c \<noteq> CreateSession \<and> sends_request c api \<longrightarrow>
      isl (fst (call c (Rejected 401 body) outcome2 api))
      \<and> \<not> isAuthenticated (snd (call c (Rejected 401 body) outcome2 api))
      \<and> api_cst (snd (call c (Rejected 401 body) outcome2 api)) = None
      \<and> api_securityToken (snd (call c (Rejected 401 body) outcome2 api)) = None)
   \<and> snd (call CreateSession (Rejected 401 body) outcome2 api) = api
   \<and> snd (call CreateSessionWithEncryption (Fulfilled hs True) (Rejected 401 body) api) = api"
proof -
  have r: "isl (fst (client_request v (Rejected 401 body) api))
    \<and> \<not> isAuthenticated (snd (client_request v (Rejected 401 body) api))
    \<and> api_cst (snd (client_request v (Rejected 401 body) api)) = None
    \<and> api_securityToken (snd (client_request v (Rejected 401 body) api)) = None" for v
    by (cases v) (simp_all add: clearSession_def isAuthenticated_def)
  have shared: "isl (fst (call c (Rejected 401 body) outcome2 api))
      \<and> \<not> isAuthenticated (snd (call c (Rejected 401 body) outcome2 api))
      \<and> api_cst (snd (call c (Rejected 401 body) outcome2 api)) = None
      \<and> api_securityToken (snd (call c (Rejected 401 body) outcome2 api)) = None"
    if c: "c \<noteq> CreateSession" and sent: "sends_request c api"
  proof (cases "c = GetEncryptionKey \<or> c = Logout \<or> c = CreateSessionWithEncryption")
    case True
    then show ?thesis
      using sent r [of GET] r [of DELETE]
      by (auto simp: getEncryptionKey_def createSessionWithEncryption_def
            split: prod.splits sum.splits)
  next
    case False
    then have "call c (Rejected 401 body) outcome2 api
        = client_request (wrapper c) (Rejected 401 body) api"
      using c by (cases c) simp_all
    then show ?thesis using r by simp
  qed
  have temp1: "snd (call CreateSession (Rejected 401 body) outcome2 api) = api"
    by simp
  have temp2: "snd (call CreateSessionWithEncryption (Fulfilled hs True) (Rejected 401 body) api)
      = api"
    by (simp add: createSessionWithEncryption_def getEncryptionKey_def)
  show ?thesis using shared temp1 temp2 by blast
qed

theorem unauthorized_clears_session_witness:
  "GetAllAccounts \<noteq> CreateSession \<and> sends_request GetAllAccounts api_xy
   \<and> CreateSessionWithEncryption \<noteq> CreateSession
   \<and> sends_request CreateSessionWithEncryption api_xy
   \<and> isAuthenticated api_xy
   \<and> \<not> isAuthenticated (snd (call GetAllAccounts (Rejected 401 None) NoResponse api_xy))
   \<and> getSessionTokens (snd (call GetAllAccounts (Rejected 401 None) NoResponse api_xy))
       = (None, None)
   \<and> getSessionTokens
        (snd (call CreateSessionWithEncryption (Rejected 401 None) NoResponse api_xy))
       = (None, None)"
proof -
  have h: "GetAllAccounts \<noteq> CreateSession \<and> sends_request GetAllAccounts api_xy"
    "CreateSessionWithEncryption \<noteq> CreateSession
       \<and> sends_request CreateSessionWithEncryption api_xy"
    by (simp_all add: api_xy_def)
  have a: "\<not> isAuthenticated (snd (call GetAllAccounts (Rejected 401 None) NoResponse api_xy))
      \<and> api_cst (snd (call GetAllAccounts (Rejected 401 None) NoResponse api_xy)) = None
      \<and> api_securityToken (snd (call GetAllAccounts (Rejected 401 None) NoResponse api_xy))
          = None"
    using h(1) unauthorized_clears_session [of GetAllAccounts api_xy None NoResponse]
    by blast
  have b: "api_cst (snd (call CreateSessionWithEncryption (Rejected 401 None) NoResponse api_xy))
          = None
      \<and> api_securityToken
           (snd (call CreateSessionWithEncryption (Rejected 401 None) NoResponse api_xy)) = None"
    using h(2) unauthorized_clears_session [of CreateSessionWithEncryption api_xy None NoResponse]
    by blast
  have c: "isAuthenticated api_xy"
    by (simp add: isAuthenticated_def api_xy_def)
  show ?thesis
    using h a b c by (simp add: getSessionTokens_def)
qed

text \<open>
  C2, as stated for every REST call, fails at the session POST. A 401 response to
  \<open>createSession\<close>, or to the session POST of \<open>createSessionWithEncryption\<close> after its
  encryption key arrived, leaves the stored tokens in place and \<open>isAuthenticated()\<close>
  true.
\<close>

theorem createSession_401_counterexample:
  "sends_request CreateSession api_xy
   \<and> isAuthenticated (snd (call CreateSession (Rejected 401 None) NoResponse api_xy))
   \<and> getSessionTokens (snd (call CreateSession (Rejected 401 None) NoResponse api_xy))
       = (Some ''x'', Some ''y'')
   \<and> isAuthenticated
        (snd (call CreateSessionWithEncryption (Fulfilled [] True) (Rejected 401 None) api_xy))
   \<and> getSessionTokens
        (snd (call CreateSessionWithEncryption (Fulfilled [] True) (Rejected 401 None) api_xy))
       = (Some ''x'', Some ''y'')"
  by (simp add: api_xy_def isAuthenticated_def getSessionTokens_def
        createSessionWithEncryption_def getEncryptionKey_def)

end
